theory Spec2Isabelle
  imports Main "HOL-Library.Sublist"
begin

section \<open>Strings\<close>

text \<open>
  The component \<open>src/App.vue\<close> works on JavaScript strings. They are modelled as
  \<open>string\<close>, one \<open>char\<close> per code unit, which covers the code units below 256
  (ASCII and Latin-1). On that range \<open>String.prototype.toLowerCase\<close> maps code units
  one by one: \<open>A\<close>..\<open>Z\<close> and the accented capitals 192..222 (without the
  multiplication sign 215) move up by 32, every other code unit stays.
\<close>

definition toLowerCase_char :: "char \<Rightarrow> char" where
  "toLowerCase_char c =
     (let n = (of_char c :: nat)
      in if (65 \<le> n \<and> n \<le> 90) \<or> (192 \<le> n \<and> n \<le> 222 \<and> n \<noteq> 215)
         then char_of (n + 32) else c)"

definition toLowerCase :: "string \<Rightarrow> string" where
  "toLowerCase s = map toLowerCase_char s"

text \<open>\<open>String.prototype.includes\<close>: the argument occurs at some position.\<close>

fun startsWith :: "string \<Rightarrow> string \<Rightarrow> bool" where
  "startsWith s [] = True"
| "startsWith [] (y # ys) = False"
| "startsWith (x # xs) (y # ys) = (x = y \<and> startsWith xs ys)"

fun str_includes :: "string \<Rightarrow> string \<Rightarrow> bool" where
  "str_includes [] t = (t = [])"
| "str_includes (x # xs) t = (startsWith (x # xs) t \<or> str_includes xs t)"

text \<open>\<open>Array.prototype.includes\<close> on an array of strings.\<close>

fun arr_includes :: "string list \<Rightarrow> string \<Rightarrow> bool" where
  "arr_includes [] p = False"
| "arr_includes (x # xs) p = (x = p \<or> arr_includes xs p)"

text \<open>
  A value that is a string or \<open>undefined\<close> (\<open>None\<close>); \<open>!v\<close> holds for
  \<open>undefined\<close> and for the empty string.
\<close>

fun falsy :: "string option \<Rightarrow> bool" where
  "falsy None = True"
| "falsy (Some s) = (s = [])"

section \<open>JSON text of the history\<close>

text \<open>
  \<open>JSON.stringify\<close> on an array of strings: the elements in double quotes, separated
  by commas, inside brackets. Inside an element the quote and the backslash are escaped,
  the control characters below 32 are written with their short escape or as
  \<open>\u00XX\<close> in lower-case hexadecimal.
\<close>

definition hex_digit :: "nat \<Rightarrow> char" where
  "hex_digit d = (if d < 10 then char_of (48 + d) else char_of (87 + d))"

definition escape_char :: "char \<Rightarrow> string" where
  "escape_char c =
     (let n = (of_char c :: nat)
      in if n = 34 then [CHR 0x5C, CHR 0x22]
         else if n = 92 then [CHR 0x5C, CHR 0x5C]
         else if n = 8 then [CHR 0x5C, CHR ''b'']
         else if n = 9 then [CHR 0x5C, CHR ''t'']
         else if n = 10 then [CHR 0x5C, CHR ''n'']
         else if n = 12 then [CHR 0x5C, CHR ''f'']
         else if n = 13 then [CHR 0x5C, CHR ''r'']
         else if n < 32 then
           [CHR 0x5C, CHR ''u'', CHR ''0'', CHR ''0'', hex_digit (n div 16), hex_digit (n mod 16)]
         else [c])"

definition quote :: "string \<Rightarrow> string" where
  "quote s = [CHR 0x22] @ concat (map escape_char s) @ [CHR 0x22]"

fun join_comma :: "string list \<Rightarrow> string" where
  "join_comma [] = []"
| "join_comma [x] = x"
| "join_comma (x # y # ys) = x @ '','' @ join_comma (y # ys)"

definition JSON_stringify :: "string list \<Rightarrow> string" where
  "JSON_stringify xs = ''['' @ join_comma (map quote xs) @ '']''"

text \<open>
  \<open>JSON.parse\<close> on a text: the value it returns, or \<open>None\<close> when it throws a
  \<open>SyntaxError\<close>. A JSON value is \<open>null\<close>, a boolean, a number (kept as it is
  written), a string (its code units, which an escape \<open>\uXXXX\<close> can take beyond 255),
  an array, or an object (its members in the order of the text; a key written twice is
  kept at both places, where JavaScript keeps the later value).
\<close>

datatype json =
    JNull
  | JBool bool
  | JNumber string
  | JString "nat list"
  | JArray "json list"
  | JObject "(nat list \<times> json) list"

datatype json_token =
    TLBracket | TRBracket | TLBrace | TRBrace | TComma | TColon
  | TString "nat list" | TNumber string | TTrue | TFalse | TNull

text \<open>
  The grammar knows four white-space characters. The text is first cut into tokens.
\<close>

definition is_ws :: "char \<Rightarrow> bool" where
  "is_ws c = ((of_char c :: nat) \<in> {32, 9, 10, 13})"

definition is_digit :: "char \<Rightarrow> bool" where
  "is_digit c = (48 \<le> (of_char c :: nat) \<and> (of_char c :: nat) \<le> 57)"

definition hex_val :: "char \<Rightarrow> nat option" where
  "hex_val c =
     (let n = (of_char c :: nat)
      in if 48 \<le> n \<and> n \<le> 57 then Some (n - 48)
         else if 65 \<le> n \<and> n \<le> 70 then Some (n - 55)
         else if 97 \<le> n \<and> n \<le> 102 then Some (n - 87)
         else None)"

text \<open>
  A backslash escape, after the backslash: the code unit it denotes and the rest of the
  text.
\<close>

definition lex_escape :: "string \<Rightarrow> (nat \<times> string) option" where
  "lex_escape s =
     (case s of
        [] \<Rightarrow> None
      | e # r \<Rightarrow>
          if e = CHR 0x22 \<or> e = CHR 0x5C \<or> e = CHR ''/'' then Some (of_char e, r)
          else if e = CHR ''b'' then Some (8, r)
          else if e = CHR ''f'' then Some (12, r)
          else if e = CHR ''n'' then Some (10, r)
          else if e = CHR ''r'' then Some (13, r)
          else if e = CHR ''t'' then Some (9, r)
          else if e = CHR ''u'' then
            (case r of
               h1 # h2 # h3 # h4 # r' \<Rightarrow>
                 (case (hex_val h1, hex_val h2, hex_val h3, hex_val h4) of
                    (Some a, Some b, Some c, Some d) \<Rightarrow> Some (((a * 16 + b) * 16 + c) * 16 + d, r')
                  | _ \<Rightarrow> None)
             | _ \<Rightarrow> None)
          else None)"

lemma lex_escape_shorter: "lex_escape s = Some (u, r) \<Longrightarrow> length r < length s"
  by (auto simp: lex_escape_def split: list.splits if_splits option.splits)

text \<open>
  A string, after its opening quote and up to the closing quote: the code units read so
  far, then the text. A control character below 32 must be escaped.
\<close>

function lex_string :: "nat list \<Rightarrow> string \<Rightarrow> (nat list \<times> string) option" where
  "lex_string acc [] = None"
| "lex_string acc (c # r) =
     (if c = CHR 0x22 then Some (acc, r)
      else if c = CHR 0x5C then
        (case lex_escape r of
           None \<Rightarrow> None
         | Some (u, r') \<Rightarrow> lex_string (acc @ [u]) r')
      else if (of_char c :: nat) < 32 then None
      else lex_string (acc @ [of_char c]) r)"
  by pat_completeness auto
termination
  by (relation "measure (\<lambda>(acc, s). length s)") (auto dest: lex_escape_shorter)

lemma lex_string_shorter: "lex_string acc s = Some (v, r) \<Longrightarrow> length r < length s"
proof (induction acc s rule: lex_string.induct)
  case (1 acc)
  then show ?case by simp
next
  case (2 acc c r0)
  show ?case
  proof (cases "c = CHR 0x22")
    case True
    with "2.prems" show ?thesis by simp
  next
    case notq: False
    show ?thesis
    proof (cases "c = CHR 0x5C")
      case True
      with notq "2.prems" obtain u r' where esc: "lex_escape r0 = Some (u, r')"
        and rest: "lex_string (acc @ [u]) r' = Some (v, r)"
        by (auto split: option.splits)
      from "2.IH"(1) [OF notq True esc refl rest] lex_escape_shorter [OF esc]
      show ?thesis by simp
    next
      case False
      with notq "2.prems" have ctl: "\<not> (of_char c :: nat) < 32"
        and rest: "lex_string (acc @ [of_char c]) r0 = Some (v, r)"
        by (auto split: if_splits)
      from "2.IH"(2) [OF notq False ctl rest] show ?thesis by simp
    qed
  qed
qed

text \<open>
  A number: an optional minus sign, the integer part without a leading zero, an optional
  fraction with at least one digit, an optional exponent with at least one digit.
\<close>

definition lex_int :: "string \<Rightarrow> (string \<times> string) option" where
  "lex_int s =
     (case s of
        [] \<Rightarrow> None
      | c # r \<Rightarrow>
          if c = CHR ''0'' then Some ([c], r)
          else if is_digit c then Some (c # takeWhile is_digit r, dropWhile is_digit r)
          else None)"

definition lex_frac :: "string \<Rightarrow> (string \<times> string) option" where
  "lex_frac s =
     (case s of
        [] \<Rightarrow> Some ([], s)
      | c # r \<Rightarrow>
          if c = CHR ''.'' then
            (if takeWhile is_digit r = [] then None
             else Some (c # takeWhile is_digit r, dropWhile is_digit r))
          else Some ([], s))"

definition lex_sign :: "string \<Rightarrow> string \<times> string" where
  "lex_sign s =
     (case s of
        [] \<Rightarrow> ([], s)
      | c # r \<Rightarrow> if c = CHR ''+'' \<or> c = CHR ''-'' then ([c], r) else ([], s))"

definition lex_exp :: "string \<Rightarrow> (string \<times> string) option" where
  "lex_exp s =
     (case s of
        [] \<Rightarrow> Some ([], s)
      | c # r \<Rightarrow>
          if c = CHR ''e'' \<or> c = CHR ''E'' then
            (case lex_sign r of
               (sg, r1) \<Rightarrow>
                 if takeWhile is_digit r1 = [] then None
                 else Some (c # sg @ takeWhile is_digit r1, dropWhile is_digit r1))
          else Some ([], s))"

definition lex_minus :: "string \<Rightarrow> string \<times> string" where
  "lex_minus s =
     (case s of
        [] \<Rightarrow> ([], s)
      | c # r \<Rightarrow> if c = CHR ''-'' then ([c], r) else ([], s))"

definition lex_number :: "string \<Rightarrow> (string \<times> string) option" where
  "lex_number s =
     (case lex_minus s of
        (m, r0) \<Rightarrow>
          (case lex_int r0 of
             None \<Rightarrow> None
           | Some (i, r1) \<Rightarrow>
               (case lex_frac r1 of
                  None \<Rightarrow> None
                | Some (f, r2) \<Rightarrow>
                    (case lex_exp r2 of
                       None \<Rightarrow> None
                     | Some (e, r3) \<Rightarrow> Some (m @ i @ f @ e, r3)))))"

lemma lex_minus_length: "lex_minus s = (m, r) \<Longrightarrow> length r \<le> length s"
  by (auto simp: lex_minus_def split: list.splits if_splits)

lemma lex_sign_length: "lex_sign s = (m, r) \<Longrightarrow> length r \<le> length s"
  by (auto simp: lex_sign_def split: list.splits if_splits)

lemma lex_int_shorter: "lex_int s = Some (i, r) \<Longrightarrow> length r < length s"
  by (auto simp: lex_int_def less_Suc_eq_le length_dropWhile_le split: list.splits if_splits)

lemma lex_frac_length: "lex_frac s = Some (f, r) \<Longrightarrow> length r \<le> length s"
  by (auto simp: lex_frac_def le_SucI length_dropWhile_le split: list.splits if_splits)

lemma lex_exp_length: "lex_exp s = Some (e, r) \<Longrightarrow> length r \<le> length s"
proof (cases s)
  case Nil
  assume "lex_exp s = Some (e, r)"
  with Nil show ?thesis by (simp add: lex_exp_def)
next
  case (Cons c r0)
  assume a: "lex_exp s = Some (e, r)"
  show ?thesis
  proof (cases "c = CHR ''e'' \<or> c = CHR ''E''")
    case False
    with a Cons show ?thesis by (auto simp: lex_exp_def)
  next
    case True
    obtain sg r1 where sg: "lex_sign r0 = (sg, r1)" by (cases "lex_sign r0")
    with a Cons True have "r = dropWhile is_digit r1"
      by (auto simp: lex_exp_def split: if_splits)
    moreover have "length (dropWhile is_digit r1) \<le> length r1" by (rule length_dropWhile_le)
    moreover from sg have "length r1 \<le> length r0" by (rule lex_sign_length)
    ultimately show ?thesis using Cons by simp
  qed
qed

lemma lex_number_shorter: "lex_number s = Some (n, r) \<Longrightarrow> length r < length s"
proof -
  assume a: "lex_number s = Some (n, r)"
  obtain m r0 where m: "lex_minus s = (m, r0)" by (cases "lex_minus s")
  with a obtain i r1 where i: "lex_int r0 = Some (i, r1)"
    by (auto simp: lex_number_def split: option.splits)
  with a m obtain f r2 where f: "lex_frac r1 = Some (f, r2)"
    by (auto simp: lex_number_def split: option.splits)
  with a m i obtain e where e: "lex_exp r2 = Some (e, r)"
    by (auto simp: lex_number_def split: option.splits)
  from lex_minus_length [OF m] lex_int_shorter [OF i] lex_frac_length [OF f] lex_exp_length [OF e]
  show ?thesis by simp
qed

text \<open>The brackets, the comma and the colon; the three literal names.\<close>

definition punctuation :: "char \<Rightarrow> json_token option" where
  "punctuation c =
     (if c = CHR ''['' then Some TLBracket
      else if c = CHR '']'' then Some TRBracket
      else if c = CHR ''{'' then Some TLBrace
      else if c = CHR ''}'' then Some TRBrace
      else if c = CHR '','' then Some TComma
      else if c = CHR '':'' then Some TColon
      else None)"

definition lex_word :: "string \<Rightarrow> (json_token \<times> string) option" where
  "lex_word s =
     (if take 4 s = ''true'' then Some (TTrue, drop 4 s)
      else if take 5 s = ''false'' then Some (TFalse, drop 5 s)
      else if take 4 s = ''null'' then Some (TNull, drop 4 s)
      else None)"

lemma lex_word_shorter: "lex_word s = Some (t, r) \<Longrightarrow> length r < length s"
  by (cases s) (auto simp: lex_word_def split: if_splits)

function tokenize :: "string \<Rightarrow> json_token list option" where
  "tokenize [] = Some []"
| "tokenize (c # r) =
     (if is_ws c then tokenize r
      else
        (case punctuation c of
           Some t \<Rightarrow> map_option ((#) t) (tokenize r)
         | None \<Rightarrow>
             if c = CHR 0x22 then
               (case lex_string [] r of
                  None \<Rightarrow> None
                | Some (s, r') \<Rightarrow> map_option ((#) (TString s)) (tokenize r'))
             else if c = CHR ''-'' \<or> is_digit c then
               (case lex_number (c # r) of
                  None \<Rightarrow> None
                | Some (n, r') \<Rightarrow> map_option ((#) (TNumber n)) (tokenize r'))
             else
               (case lex_word (c # r) of
                  None \<Rightarrow> None
                | Some (t, r') \<Rightarrow> map_option ((#) t) (tokenize r'))))"
  by pat_completeness auto
termination
  apply (relation "measure length")
  apply simp_all
  apply (auto dest: lex_string_shorter lex_number_shorter lex_word_shorter)
  done

text \<open>
  The tokens are read by a machine with the stack of the arrays and objects that are
  open. Its mode says what may come next; a finished value goes into the array or member
  on top of the stack, or is the result when the stack is empty.
\<close>

datatype parser_mode =
    ExpectValue | ExpectValueOrClose | ExpectKeyOrClose | ExpectKey | ExpectColon
  | AfterValue | Done json

datatype parser_frame =
    FArray "json list"
  | FObject "(nat list \<times> json) list" "nat list option"

fun json_complete :: "json \<Rightarrow> parser_frame list \<Rightarrow> (parser_mode \<times> parser_frame list) option" where
  "json_complete v [] = Some (Done v, [])"
| "json_complete v (FArray xs # st) = Some (AfterValue, FArray (xs @ [v]) # st)"
| "json_complete v (FObject ms (Some k) # st) = Some (AfterValue, FObject (ms @ [(k, v)]) None # st)"
| "json_complete v (FObject ms None # st) = None"

fun json_begin :: "json_token \<Rightarrow> parser_frame list \<Rightarrow> (parser_mode \<times> parser_frame list) option" where
  "json_begin (TString s) st = json_complete (JString s) st"
| "json_begin (TNumber n) st = json_complete (JNumber n) st"
| "json_begin TTrue st = json_complete (JBool True) st"
| "json_begin TFalse st = json_complete (JBool False) st"
| "json_begin TNull st = json_complete JNull st"
| "json_begin TLBracket st = Some (ExpectValueOrClose, FArray [] # st)"
| "json_begin TLBrace st = Some (ExpectKeyOrClose, FObject [] None # st)"
| "json_begin t st = None"

fun json_key :: "json_token \<Rightarrow> parser_frame list \<Rightarrow> (parser_mode \<times> parser_frame list) option" where
  "json_key (TString k) (FObject ms None # st) = Some (ExpectColon, FObject ms (Some k) # st)"
| "json_key t st = None"

fun json_close :: "json_token \<Rightarrow> parser_frame list \<Rightarrow> (parser_mode \<times> parser_frame list) option" where
  "json_close TRBracket (FArray xs # st) = json_complete (JArray xs) st"
| "json_close TRBrace (FObject ms None # st) = json_complete (JObject ms) st"
| "json_close t st = None"

fun json_step :: "json_token \<Rightarrow> parser_mode \<Rightarrow> parser_frame list \<Rightarrow> (parser_mode \<times> parser_frame list) option" where
  "json_step t ExpectValue st = json_begin t st"
| "json_step t ExpectValueOrClose st = (if t = TRBracket then json_close t st else json_begin t st)"
| "json_step t ExpectKeyOrClose st = (if t = TRBrace then json_close t st else json_key t st)"
| "json_step t ExpectKey st = json_key t st"
| "json_step t ExpectColon st = (if t = TColon then Some (ExpectValue, st) else None)"
| "json_step t AfterValue st =
     (if t = TComma then
        (case st of
           FArray xs # st' \<Rightarrow> Some (ExpectValue, st)
         | FObject ms None # st' \<Rightarrow> Some (ExpectKey, st)
         | _ \<Rightarrow> None)
      else json_close t st)"
| "json_step t (Done v) st = None"

fun json_run :: "json_token list \<Rightarrow> parser_mode \<Rightarrow> parser_frame list \<Rightarrow> json option" where
  "json_run [] (Done v) st = Some v"
| "json_run [] m st = None"
| "json_run (t # ts) m st =
     (case json_step t m st of
        None \<Rightarrow> None
      | Some (m', st') \<Rightarrow> json_run ts m' st')"

definition JSON_parse :: "string \<Rightarrow> json option" where
  "JSON_parse s =
     (case tokenize s of
        None \<Rightarrow> None
      | Some ts \<Rightarrow> json_run ts ExpectValue [])"


text \<open>
  The array of strings a JSON value stands for in this model, when it is an array of
  strings whose code units are below 256.
\<close>

fun as_string :: "json \<Rightarrow> string option" where
  "as_string (JString us) = (if list_all (\<lambda>u. u < 256) us then Some (map char_of us) else None)"
| "as_string v = None"

fun string_array :: "json \<Rightarrow> string list option" where
  "string_array (JArray vs) = those (map as_string vs)"
| "string_array v = None"

section \<open>State of the component\<close>

text \<open>
  The refs of \<open>src/App.vue\<close> (lines 4 to 10) and the services the component
  writes to: the key-value storage, the class \<open>dark-mode\<close> of the document body, the
  clipboard, the error console and the pending timers. \<open>packageName\<close> is a string
  or \<open>undefined\<close> (the value the \<open>Enter\<close> branch stores when the selected index
  is beyond the suggestion list).
\<close>

datatype timer_action = HideCopyMessage

record state =
  packageName :: "string option"
  showCopyMessage :: bool
  usedPackages :: "string list"
  isDarkMode :: bool
  showSuggestions :: bool
  selectedIndex :: int
  localStorage :: "string \<rightharpoonup> string"
  bodyDarkMode :: bool
  clipboard :: "string option"
  console :: "string list"
  timers :: "(nat \<times> timer_action) list"

definition defaultPackages :: "string list" where
  "defaultPackages = [''pandas'', ''numpy'', ''requests'', ''pillow'', ''flask'']"

text \<open>The state the script sets up before the component is mounted.\<close>

definition initial :: "(string \<rightharpoonup> string) \<Rightarrow> state" where
  "initial storage =
     \<lparr> packageName = Some [], showCopyMessage = False, usedPackages = [],
       isDarkMode = False, showSuggestions = False, selectedIndex = - 1,
       localStorage = storage, bodyDarkMode = False, clipboard = None,
       console = [], timers = [] \<rparr>"

section \<open>Suggestions\<close>

text \<open>The computed \<open>suggestions\<close> (lines 13 to 19).\<close>

definition suggestions :: "state \<Rightarrow> string list" where
  "suggestions st =
     (case packageName st of
        None \<Rightarrow> []
      | Some s \<Rightarrow>
          if s = [] then []
          else filter (\<lambda>pkg. str_includes (toLowerCase pkg) (toLowerCase s) \<and> pkg \<noteq> s)
                 (usedPackages st))"

text \<open>The list is rendered under \<open>v-if="showSuggestions && suggestions.length"\<close> (line 173).\<close>

definition suggestionsVisible :: "state \<Rightarrow> bool" where
  "suggestionsVisible st = (showSuggestions st \<and> suggestions st \<noteq> [])"

section \<open>Keyboard navigation\<close>

text \<open>
  The remainder operator \<open>%\<close> of JavaScript on integers: the result has the sign of
  the dividend.
\<close>

definition js_rem :: "int \<Rightarrow> int \<Rightarrow> int" where
  "js_rem a b = sgn a * (\<bar>a\<bar> mod \<bar>b\<bar>)"

text \<open>\<open>xs[i]\<close> for an integer \<open>i\<close> that is not negative: \<open>undefined\<close> beyond the end.\<close>

definition at_index :: "'a list \<Rightarrow> int \<Rightarrow> 'a option" where
  "at_index xs i = (if 0 \<le> i \<and> nat i < length xs then Some (xs ! nat i) else None)"

text \<open>
  \<open>handleKeydown\<close> (lines 22 to 45), on the \<open>key\<close> of the event. The first
  component of the result tells whether \<open>e.preventDefault()\<close> was called.
\<close>

definition handleKeydown :: "string \<Rightarrow> state \<Rightarrow> bool \<times> state" where
  "handleKeydown key st =
     (if length (suggestions st) = 0 then (False, st)
      else if key = ''ArrowDown'' then
        (True, st\<lparr>selectedIndex := js_rem (selectedIndex st + 1) (int (length (suggestions st)))\<rparr>)
      else if key = ''ArrowUp'' then
        (True, st\<lparr>selectedIndex :=
                   (if selectedIndex st \<le> 0 then int (length (suggestions st)) - 1
                    else selectedIndex st - 1)\<rparr>)
      else if key = ''Enter'' then
        (if selectedIndex st \<ge> 0 then
           (True, st\<lparr>packageName := at_index (suggestions st) (selectedIndex st),
                      showSuggestions := False\<rparr>)
         else (False, st))
      else if key = ''Escape'' then (False, st\<lparr>showSuggestions := False\<rparr>)
      else (False, st))"

definition keydown :: "string \<Rightarrow> state \<Rightarrow> state" where
  "keydown key st = snd (handleKeydown key st)"

text \<open>
  \<open>handleInput\<close> (lines 47 to 50) runs after \<open>v-model\<close> has stored the new text of
  the input field.
\<close>

definition handleInput :: "state \<Rightarrow> state" where
  "handleInput st = st\<lparr>selectedIndex := - 1, showSuggestions := True\<rparr>"

definition typeText :: "string \<Rightarrow> state \<Rightarrow> state" where
  "typeText s st = handleInput (st\<lparr>packageName := Some s\<rparr>)"

definition selectSuggestion :: "string \<Rightarrow> state \<Rightarrow> state" where
  "selectSuggestion suggestion st = st\<lparr>packageName := Some suggestion, showSuggestions := False\<rparr>"

definition selectPackage :: "string \<Rightarrow> state \<Rightarrow> state" where
  "selectPackage pkg st = st\<lparr>packageName := Some pkg\<rparr>"

text \<open>A timer that fires runs its action.\<close>

fun fire :: "timer_action \<Rightarrow> state \<Rightarrow> state" where
  "fire HideCopyMessage st = st\<lparr>showCopyMessage := False\<rparr>"

section \<open>History and its persistence\<close>

datatype exn = SyntaxError

text \<open>
  What a function that loads the history does: it throws; or it returns and leaves a
  state; or it returns and the history ref holds a JSON value that is not an array of
  strings of this model, next to the state of the other refs and of the services.
\<close>

datatype load_result = Throws exn | Returns state | ReturnsOther json state

text \<open>\<open>loadUsedPackages\<close> (lines 77 to 86). \<open>JSON.parse\<close> is called outside any
  \<open>try\<close>, so what it throws leaves the function; what it returns is stored as the
  history without a check.\<close>

definition loadUsedPackages :: "state \<Rightarrow> load_result" where
  "loadUsedPackages st =
     (let stored = localStorage st ''usedPackages''
      in if \<not> falsy stored then
           (case JSON_parse (the stored) of
              None \<Rightarrow> Throws SyntaxError
            | Some v \<Rightarrow>
                (case string_array v of
                   Some xs \<Rightarrow> Returns (st\<lparr>usedPackages := xs\<rparr>)
                 | None \<Rightarrow> ReturnsOther v st))
         else
           Returns (st\<lparr>usedPackages := defaultPackages,
                      localStorage := (localStorage st)(''usedPackages'' \<mapsto> JSON_stringify defaultPackages)\<rparr>))"

text \<open>\<open>savePackage\<close> (lines 89 to 93).\<close>

definition savePackage :: "string option \<Rightarrow> state \<Rightarrow> state" where
  "savePackage pkg st =
     (if falsy pkg \<or> arr_includes (usedPackages st) (the pkg) then st
      else st\<lparr>usedPackages := the pkg # usedPackages st,
              localStorage := (localStorage st)(''usedPackages'' \<mapsto> JSON_stringify (the pkg # usedPackages st))\<rparr>)"

text \<open>\<open>deletePackage\<close> (lines 117 to 121).\<close>

definition deletePackage :: "string \<Rightarrow> state \<Rightarrow> state" where
  "deletePackage pkg st =
     st\<lparr>usedPackages := filter (\<lambda>p. p \<noteq> pkg) (usedPackages st),
        localStorage := (localStorage st)(''usedPackages'' \<mapsto>
                          JSON_stringify (filter (\<lambda>p. p \<noteq> pkg) (usedPackages st)))\<rparr>"

section \<open>Commands\<close>

record mirror =
  url :: string
  name :: string

text \<open>\<open>generateCommand\<close> (lines 95 to 98).\<close>

definition generateCommand :: "mirror \<Rightarrow> state \<Rightarrow> string" where
  "generateCommand m st =
     (if falsy (packageName st) then []
      else ''pip install -i '' @ url m @ '' '' @ the (packageName st))"

section \<open>Clipboard\<close>

text \<open>
  \<open>copyToClipboard\<close> (lines 100 to 111), from the moment the promise of
  \<open>navigator.clipboard.writeText\<close> settles: it resolves, or it rejects with an error
  whose text goes to the console.
\<close>

datatype write_outcome = Resolved | Rejected string

fun copyToClipboard :: "write_outcome \<Rightarrow> string \<Rightarrow> state \<Rightarrow> state" where
  "copyToClipboard Resolved text st =
     (let st1 = savePackage (packageName st) (st\<lparr>clipboard := Some text\<rparr>)
      in st1\<lparr>showCopyMessage := True, timers := timers st1 @ [(2000, HideCopyMessage)]\<rparr>)"
| "copyToClipboard (Rejected err) text st =
     st\<lparr>console := console st @ [''Failed to copy text: '' @ err]\<rparr>"

section \<open>Theme\<close>

text \<open>\<open>applyTheme\<close> (lines 138 to 140), \<open>loadThemePreference\<close> (lines 124 to 128)
  and \<open>toggleTheme\<close> (lines 131 to 135). \<open>setItem\<close> stores the string of the
  boolean.\<close>

definition applyTheme :: "state \<Rightarrow> state" where
  "applyTheme st = st\<lparr>bodyDarkMode := isDarkMode st\<rparr>"

definition string_of_bool :: "bool \<Rightarrow> string" where
  "string_of_bool b = (if b then ''true'' else ''false'')"

definition loadThemePreference :: "state \<Rightarrow> state" where
  "loadThemePreference st =
     applyTheme (st\<lparr>isDarkMode := (localStorage st ''darkMode'' = Some ''true'')\<rparr>)"

definition toggleTheme :: "state \<Rightarrow> state" where
  "toggleTheme st =
     (let st1 = st\<lparr>isDarkMode := \<not> isDarkMode st\<rparr>
      in applyTheme (st1\<lparr>localStorage := (localStorage st1)(''darkMode'' \<mapsto> string_of_bool (isDarkMode st1))\<rparr>))"

text \<open>The \<open>onMounted\<close> hook (lines 142 to 145).\<close>

definition onMounted :: "state \<Rightarrow> load_result" where
  "onMounted st =
     (case loadUsedPackages st of
        Throws e \<Rightarrow> Throws e
      | Returns st1 \<Rightarrow> Returns (loadThemePreference st1)
      | ReturnsOther v st1 \<Rightarrow> ReturnsOther v (loadThemePreference st1))"

section \<open>Example states\<close>

text \<open>
  A first run with nothing in the storage; a storage whose history entry is not JSON;
  a storage holding a history the component wrote; one holding a JSON text cut short and
  one holding \<open>null\<close>; the state after the history is the
  default list and the user has typed \<open>a\<close>, with the suggestions \<open>pandas\<close> and
  \<open>flask\<close> open and none selected; and the first mirror of the configuration (its
  display name transliterated).
\<close>

definition example_fresh :: state where
  "example_fresh = initial Map.empty"

definition example_corrupt :: state where
  "example_corrupt = initial (Map.empty(''usedPackages'' \<mapsto> ''pandas,numpy''))"

definition example_stored :: state where
  "example_stored = initial (Map.empty(''usedPackages'' \<mapsto> JSON_stringify [''numpy'', ''flask'']))"

definition example_truncated :: state where
  "example_truncated = initial (Map.empty(''usedPackages'' \<mapsto> ''[1''))"

definition example_null :: state where
  "example_null = initial (Map.empty(''usedPackages'' \<mapsto> ''null''))"

definition example_open :: state where
  "example_open = typeText ''a'' ((initial Map.empty)\<lparr>usedPackages := defaultPackages\<rparr>)"

definition example_mirror :: mirror where
  "example_mirror = \<lparr> url = ''https://mirrors.aliyun.com/pypi/simple'', name = ''aliyun'' \<rparr>"

section \<open>Auxiliary facts\<close>

lemma startsWith_prefix: "startsWith s t = prefix t s"
  by (induction s t rule: startsWith.induct) auto

lemma str_includes_sublist: "str_includes s t = sublist t s"
  by (induction s) (auto simp: startsWith_prefix sublist_Cons_right)

lemma arr_includes_set: "arr_includes xs p = (p \<in> set xs)"
  by (induction xs) auto

lemma js_rem_nonneg: "0 \<le> a \<Longrightarrow> 0 < b \<Longrightarrow> js_rem a b = a mod b"
  by (cases "a = 0") (simp_all add: js_rem_def)

lemma suggestions_selectedIndex [simp]: "suggestions (st\<lparr>selectedIndex := i\<rparr>) = suggestions st"
  by (simp add: suggestions_def split: option.splits)

lemma suggestions_showSuggestions [simp]: "suggestions (st\<lparr>showSuggestions := b\<rparr>) = suggestions st"
  by (simp add: suggestions_def split: option.splits)

lemma ArrowDown_step:
  assumes "suggestions st \<noteq> []" and "- 1 \<le> selectedIndex st"
  shows "keydown ''ArrowDown'' st =
           st\<lparr>selectedIndex := (selectedIndex st + 1) mod int (length (suggestions st))\<rparr>"
  using assms by (simp add: keydown_def handleKeydown_def js_rem_nonneg)

lemma ArrowDown_iterate:
  assumes "suggestions st \<noteq> []" and "0 \<le> selectedIndex st"
  shows "(keydown ''ArrowDown'' ^^ Suc k) st =
           st\<lparr>selectedIndex := (selectedIndex st + 1 + int k) mod int (length (suggestions st))\<rparr>"
proof (induction k)
  case 0
  from assms show ?case by (simp add: ArrowDown_step)
next
  case (Suc k)
  let ?n = "int (length (suggestions st))"
  let ?st = "st\<lparr>selectedIndex := (selectedIndex st + 1 + int k) mod ?n\<rparr>"
  from assms have pos: "0 < ?n" by simp
  have "(keydown ''ArrowDown'' ^^ Suc (Suc k)) st = keydown ''ArrowDown'' ?st"
    using Suc.IH by simp
  also have "\<dots> = ?st\<lparr>selectedIndex := (selectedIndex ?st + 1) mod int (length (suggestions ?st))\<rparr>"
  proof (rule ArrowDown_step)
    from assms show "suggestions ?st \<noteq> []" by simp
    from pos have "0 \<le> (selectedIndex st + 1 + int k) mod ?n" by simp
    then show "- 1 \<le> selectedIndex ?st" by simp
  qed
  also have "\<dots> = st\<lparr>selectedIndex := (selectedIndex st + 1 + int (Suc k)) mod ?n\<rparr>"
  proof -
    have "((selectedIndex st + 1 + int k) mod ?n + 1) mod ?n = (selectedIndex st + 1 + int k + 1) mod ?n"
      by (rule mod_add_left_eq)
    then show ?thesis by (simp add: add.assoc)
  qed
  finally show ?case .
qed

lemma ArrowDown_cycle:
  assumes "suggestions st \<noteq> []" and "0 \<le> selectedIndex st"
    and "selectedIndex st < int (length (suggestions st))"
  shows "(keydown ''ArrowDown'' ^^ length (suggestions st)) st = st"
proof -
  from assms(1) obtain k where k: "length (suggestions st) = Suc k"
    by (cases "suggestions st") auto
  have "(keydown ''ArrowDown'' ^^ Suc k) st =
          st\<lparr>selectedIndex := (selectedIndex st + 1 + int k) mod int (length (suggestions st))\<rparr>"
    using assms(1,2) by (rule ArrowDown_iterate)
  also have "(selectedIndex st + 1 + int k) mod int (length (suggestions st)) = selectedIndex st"
  proof -
    have "(selectedIndex st + int (Suc k)) mod int (Suc k) = selectedIndex st mod int (Suc k)"
      by (rule mod_add_self2)
    also have "\<dots> = selectedIndex st"
      using assms(2,3) k by (simp add: mod_pos_pos_trivial)
    finally show ?thesis using k by (simp add: add.assoc)
  qed
  finally show ?thesis using k by simp
qed

lemma ArrowDown_from_none:
  assumes "suggestions st \<noteq> []" and "selectedIndex st = - 1"
  shows "selectedIndex ((keydown ''ArrowDown'' ^^ length (suggestions st)) st) =
           int (length (suggestions st)) - 1"
proof -
  from assms(1) obtain k where k: "length (suggestions st) = Suc k"
    by (cases "suggestions st") auto
  let ?st = "st\<lparr>selectedIndex := 0\<rparr>"
  have first: "keydown ''ArrowDown'' st = ?st"
    using assms by (simp add: ArrowDown_step)
  show ?thesis
  proof (cases k)
    case 0
    with k first show ?thesis by simp
  next
    case (Suc j)
    have "(keydown ''ArrowDown'' ^^ Suc k) st = (keydown ''ArrowDown'' ^^ Suc j) ?st"
      using first Suc by (simp add: funpow_swap1)
    also have "\<dots> = ?st\<lparr>selectedIndex := (selectedIndex ?st + 1 + int j) mod int (length (suggestions ?st))\<rparr>"
      using assms(1) by (intro ArrowDown_iterate) simp_all
    finally show ?thesis using k Suc by simp
  qed
qed

section \<open>Suggestion engine\<close>

text \<open>
  C1. For every history list \<open>H\<close> and input text \<open>s\<close>, the suggestions are the
  entries of \<open>H\<close>, in the order of \<open>H\<close>, that contain \<open>s\<close> as a contiguous
  substring once both are put in lower case and that are not equal to \<open>s\<close>; for the
  empty text there are none. The text itself is never suggested.
\<close>

theorem suggestions_filter:
  "suggestions (st\<lparr>packageName := Some s, usedPackages := H\<rparr>) =
     (if s = [] then []
      else filter (\<lambda>pkg. sublist (toLowerCase s) (toLowerCase pkg) \<and> pkg \<noteq> s) H)
   \<and> suggestions (st\<lparr>packageName := Some [], usedPackages := H\<rparr>) = []
   \<and> s \<notin> set (suggestions (st\<lparr>packageName := Some s, usedPackages := H\<rparr>))"
  by (simp add: suggestions_def str_includes_sublist)

theorem suggestions_filter_witness:
  "suggestions ((initial Map.empty)\<lparr>packageName := Some ''PAN'', usedPackages := defaultPackages\<rparr>) = [''pandas'']
   \<and> filter (\<lambda>pkg. sublist (toLowerCase ''PAN'') (toLowerCase pkg) \<and> pkg \<noteq> ''PAN'') defaultPackages = [''pandas'']"
proof -
  have ev: "suggestions ((initial Map.empty)\<lparr>packageName := Some ''PAN'', usedPackages := defaultPackages\<rparr>) = [''pandas'']"
    by code_simp
  from ev suggestions_filter [where st = "initial Map.empty" and s = "''PAN''" and H = defaultPackages]
  show ?thesis by simp
qed

section \<open>Loading the history\<close>

text \<open>
  C2, as the code has it. When the key \<open>usedPackages\<close> is missing or holds the empty
  string, loading does not fail: the history becomes the default list \<open>pandas\<close>,
  \<open>numpy\<close>, \<open>requests\<close>, \<open>pillow\<close>, \<open>flask\<close>, and the list is written to the
  storage. When the key holds a non-empty text that \<open>JSON.parse\<close> rejects, loading
  fails with that syntax error and there is no fallback. When it holds the JSON text of
  an array of strings, the history becomes that array; any other JSON value is stored as
  the history unchecked, again without a fallback.
\<close>

theorem loadUsedPackages_fallback:
  "(falsy (localStorage st ''usedPackages'') \<longrightarrow>
      (\<exists>st'. loadUsedPackages st = Returns st' \<and> usedPackages st' = defaultPackages
         \<and> localStorage st' ''usedPackages'' = Some (JSON_stringify defaultPackages)))
   \<and> (localStorage st ''usedPackages'' = Some s \<and> s \<noteq> [] \<and> JSON_parse s = None \<longrightarrow>
        loadUsedPackages st = Throws SyntaxError)
   \<and> (localStorage st ''usedPackages'' = Some s \<and> s \<noteq> [] \<and> JSON_parse s = Some v
        \<and> string_array v = Some xs \<longrightarrow>
        loadUsedPackages st = Returns (st\<lparr>usedPackages := xs\<rparr>))
   \<and> (localStorage st ''usedPackages'' = Some s \<and> s \<noteq> [] \<and> JSON_parse s = Some v
        \<and> string_array v = None \<longrightarrow>
        loadUsedPackages st = ReturnsOther v st)"
  by (simp add: loadUsedPackages_def)

theorem loadUsedPackages_fallback_witness:
  "falsy (localStorage example_fresh ''usedPackages'')
   \<and> (\<exists>st'. loadUsedPackages example_fresh = Returns st' \<and> usedPackages st' = defaultPackages
         \<and> localStorage st' ''usedPackages'' = Some (JSON_stringify defaultPackages))
   \<and> localStorage example_corrupt ''usedPackages'' = Some ''pandas,numpy''
   \<and> JSON_parse ''pandas,numpy'' = None
   \<and> loadUsedPackages example_corrupt = Throws SyntaxError
   \<and> localStorage example_truncated ''usedPackages'' = Some ''[1''
   \<and> JSON_parse ''[1'' = None
   \<and> loadUsedPackages example_truncated = Throws SyntaxError
   \<and> JSON_parse (JSON_stringify [''numpy'', ''flask'']) =
        Some (JArray [JString (map of_char ''numpy''), JString (map of_char ''flask'')])
   \<and> loadUsedPackages example_stored = Returns (example_stored\<lparr>usedPackages := [''numpy'', ''flask'']\<rparr>)
   \<and> localStorage example_null ''usedPackages'' = Some ''null''
   \<and> JSON_parse ''null'' = Some JNull
   \<and> loadUsedPackages example_null = ReturnsOther JNull example_null"
proof -
  have a: "falsy (localStorage example_fresh ''usedPackages'')"
    by (simp add: example_fresh_def initial_def)
  have b: "localStorage example_corrupt ''usedPackages'' = Some ''pandas,numpy''"
    by (simp add: example_corrupt_def initial_def)
  have c: "JSON_parse ''pandas,numpy'' = None"
    by code_simp
  have d: "localStorage example_truncated ''usedPackages'' = Some ''[1''"
    by (simp add: example_truncated_def initial_def)
  have e: "JSON_parse ''[1'' = None"
    by code_simp
  have f: "localStorage example_stored ''usedPackages'' = Some (JSON_stringify [''numpy'', ''flask''])"
    by (simp add: example_stored_def initial_def)
  have g: "JSON_stringify [''numpy'', ''flask''] \<noteq> []"
    by (simp add: JSON_stringify_def)
  have h: "JSON_parse (JSON_stringify [''numpy'', ''flask'']) =
             Some (JArray [JString (map of_char ''numpy''), JString (map of_char ''flask'')])"
    by code_simp
  have i: "string_array (JArray [JString (map of_char ''numpy''), JString (map of_char ''flask'')]) =
             Some [''numpy'', ''flask'']"
    by code_simp
  have j: "localStorage example_null ''usedPackages'' = Some ''null''"
    by (simp add: example_null_def initial_def)
  have k: "JSON_parse ''null'' = Some JNull"
    by code_simp
  have l: "string_array JNull = None"
    by simp
  from a have 1: "\<exists>st'. loadUsedPackages example_fresh = Returns st' \<and> usedPackages st' = defaultPackages
         \<and> localStorage st' ''usedPackages'' = Some (JSON_stringify defaultPackages)"
    using loadUsedPackages_fallback [where st = example_fresh] by blast
  from b c have 2: "loadUsedPackages example_corrupt = Throws SyntaxError"
    using loadUsedPackages_fallback [where st = example_corrupt and s = "''pandas,numpy''"] by simp
  from d e have 3: "loadUsedPackages example_truncated = Throws SyntaxError"
    using loadUsedPackages_fallback [where st = example_truncated and s = "''[1''"] by simp
  from f g h i have 4: "loadUsedPackages example_stored = Returns (example_stored\<lparr>usedPackages := [''numpy'', ''flask'']\<rparr>)"
    using loadUsedPackages_fallback [where st = example_stored and s = "JSON_stringify [''numpy'', ''flask'']"
      and v = "JArray [JString (map of_char ''numpy''), JString (map of_char ''flask'')]"
      and xs = "[''numpy'', ''flask'']"] by blast
  from j k l have 5: "loadUsedPackages example_null = ReturnsOther JNull example_null"
    using loadUsedPackages_fallback [where st = example_null and s = "''null''" and v = JNull] by simp
  from a b c d e h j k 1 2 3 4 5 show ?thesis by blast
qed

text \<open>
  A stored text that is not JSON makes loading fail: the statement that a corrupt value
  falls back to the default list does not hold.
\<close>

theorem loadUsedPackages_corrupt_counterexample:
  "localStorage example_corrupt ''usedPackages'' = Some ''pandas,numpy''
   \<and> JSON_parse ''pandas,numpy'' = None
   \<and> loadUsedPackages example_corrupt = Throws SyntaxError"
proof -
  have "JSON_parse ''pandas,numpy'' = None"
    by code_simp
  then show ?thesis
    by (simp add: example_corrupt_def initial_def loadUsedPackages_def)
qed

section \<open>Keyboard navigation\<close>

text \<open>
  C3. In every state, after \<open>Escape\<close> no suggestion list is shown, and the selected
  index, the input text and the suggestions are what they were. The flag
  \<open>showSuggestions\<close> is cleared when there are suggestions; with none the handler
  returns at once, the flag keeps its value and the empty list is not rendered.
\<close>

theorem escape_hides:
  "\<not> suggestionsVisible (keydown ''Escape'' st)
   \<and> selectedIndex (keydown ''Escape'' st) = selectedIndex st
   \<and> packageName (keydown ''Escape'' st) = packageName st
   \<and> suggestions (keydown ''Escape'' st) = suggestions st
   \<and> showSuggestions (keydown ''Escape'' st) = (showSuggestions st \<and> suggestions st = [])"
  by (simp add: keydown_def handleKeydown_def suggestionsVisible_def)

theorem escape_hides_witness:
  "suggestionsVisible example_open
   \<and> \<not> suggestionsVisible (keydown ''Escape'' example_open)
   \<and> selectedIndex (keydown ''Escape'' example_open) = - 1"
proof -
  have "suggestionsVisible example_open" by code_simp
  moreover have "selectedIndex example_open = - 1" by code_simp
  ultimately show ?thesis using escape_hides [of example_open] by simp
qed

text \<open>
  C4, as the code has it. With \<open>n\<close> suggestions, \<open>n > 0\<close>, each \<open>ArrowDown\<close>
  from an index of at least \<open>-1\<close> sets the index to \<open>(index + 1) mod n\<close> and changes
  nothing else. From an index in \<open>0..n-1\<close>, \<open>n\<close> presses bring the state back to where
  it started. From \<open>-1\<close> (no selection) they end on \<open>n - 1\<close>: the index \<open>-1\<close> is left
  by the first press and not reached again.
\<close>

theorem ArrowDown_circular:
  assumes "suggestions st \<noteq> []" and "n = length (suggestions st)"
  shows "(- 1 \<le> selectedIndex st \<longrightarrow>
            keydown ''ArrowDown'' st = st\<lparr>selectedIndex := (selectedIndex st + 1) mod int n\<rparr>)
       \<and> (0 \<le> selectedIndex st \<and> selectedIndex st < int n \<longrightarrow>
            (keydown ''ArrowDown'' ^^ n) st = st)
       \<and> (selectedIndex st = - 1 \<longrightarrow>
            selectedIndex ((keydown ''ArrowDown'' ^^ n) st) = int n - 1)"
  using assms by (simp add: ArrowDown_step ArrowDown_cycle ArrowDown_from_none)

theorem ArrowDown_circular_witness:
  "suggestions (example_open\<lparr>selectedIndex := 1\<rparr>) \<noteq> []
   \<and> 2 = length (suggestions (example_open\<lparr>selectedIndex := 1\<rparr>))
   \<and> selectedIndex (keydown ''ArrowDown'' (example_open\<lparr>selectedIndex := 1\<rparr>)) = 0
   \<and> selectedIndex ((keydown ''ArrowDown'' ^^ 2) (example_open\<lparr>selectedIndex := 1\<rparr>)) = 1"
proof -
  let ?st = "example_open\<lparr>selectedIndex := 1\<rparr>"
  have a: "suggestions ?st \<noteq> []" by code_simp
  have b: "2 = length (suggestions ?st)" by code_simp
  have c: "selectedIndex ?st = 1" by simp
  from ArrowDown_circular [OF a b] c show ?thesis using a b by simp
qed

text \<open>
  With the two suggestions of \<open>example_open\<close> and no selection, two presses of
  \<open>ArrowDown\<close> end on index 1, not on the starting index \<open>-1\<close>.
\<close>

theorem ArrowDown_from_none_counterexample:
  "length (suggestions example_open) = 2
   \<and> showSuggestions example_open
   \<and> selectedIndex example_open = - 1
   \<and> selectedIndex ((keydown ''ArrowDown'' ^^ 2) example_open) = 1
   \<and> selectedIndex ((keydown ''ArrowDown'' ^^ 2) example_open) \<noteq> selectedIndex example_open"
  by code_simp

text \<open>
  C10. With suggestions present and no selection (index \<open>-1\<close>), \<open>Enter\<close> changes
  nothing: the input text, the index and the flag \<open>showSuggestions\<close> stay, and the
  default action of the key is not prevented. \<open>Enter\<close> changes the state only when
  the index is at least 0; then, with suggestions present, it stores the selected
  suggestion as the input text and clears the flag.
\<close>

theorem Enter_without_selection:
  "(suggestions st \<noteq> [] \<and> selectedIndex st = - 1 \<longrightarrow> handleKeydown ''Enter'' st = (False, st))
   \<and> (keydown ''Enter'' st \<noteq> st \<longrightarrow> 0 \<le> selectedIndex st)
   \<and> (suggestions st \<noteq> [] \<and> 0 \<le> selectedIndex st \<longrightarrow>
        keydown ''Enter'' st =
          st\<lparr>packageName := at_index (suggestions st) (selectedIndex st), showSuggestions := False\<rparr>)"
  by (simp add: keydown_def handleKeydown_def)

theorem Enter_without_selection_witness:
  "suggestions example_open \<noteq> [] \<and> selectedIndex example_open = - 1
   \<and> packageName (keydown ''Enter'' example_open) = Some ''a''
   \<and> showSuggestions (keydown ''Enter'' example_open)
   \<and> selectedIndex (keydown ''Enter'' example_open) = - 1"
proof -
  have a: "suggestions example_open \<noteq> []" by code_simp
  have b: "selectedIndex example_open = - 1" "packageName example_open = Some ''a''"
    "showSuggestions example_open"
    by (simp_all add: example_open_def typeText_def handleInput_def initial_def)
  from a b Enter_without_selection [where st = example_open]
  show ?thesis by (simp add: keydown_def)
qed

section \<open>Command generator\<close>

text \<open>
  C5. For every mirror \<open>m\<close> and every non-empty package name \<open>p\<close> the command is
  \<open>pip install -i\<close>, the url of \<open>m\<close> and \<open>p\<close>, separated by single spaces; for
  the empty package name it is the empty string, whatever the mirror.
\<close>

theorem generateCommand_text:
  "generateCommand m (st\<lparr>packageName := Some p\<rparr>) =
     (if p = [] then [] else ''pip install -i '' @ url m @ '' '' @ p)"
  by (simp add: generateCommand_def)

theorem generateCommand_text_witness:
  "generateCommand example_mirror (example_fresh\<lparr>packageName := Some ''pandas''\<rparr>) =
     ''pip install -i https://mirrors.aliyun.com/pypi/simple pandas''
   \<and> generateCommand example_mirror (example_fresh\<lparr>packageName := Some []\<rparr>) = []"
  using generateCommand_text [where m = example_mirror and st = example_fresh and p = "''pandas''"]
    generateCommand_text [where m = example_mirror and st = example_fresh and p = "[]"]
  by (simp add: example_mirror_def)

section \<open>History updates\<close>

text \<open>
  C6. Saving a package name \<open>p\<close> that is in the history leaves the whole state as it
  is: no duplicate, no reordering, nothing written. Saving a non-empty \<open>p\<close> that is not
  in the history puts \<open>p\<close> in front of it and writes the new list to the storage. A
  successful copy changes the history and the storage exactly as saving the current
  package name does.
\<close>

theorem savePackage_history:
  "(p \<in> set (usedPackages st) \<longrightarrow> savePackage (Some p) st = st)
   \<and> (p \<noteq> [] \<and> p \<notin> set (usedPackages st) \<longrightarrow>
        usedPackages (savePackage (Some p) st) = p # usedPackages st
        \<and> localStorage (savePackage (Some p) st) ''usedPackages'' =
            Some (JSON_stringify (p # usedPackages st)))
   \<and> (packageName st = Some p \<longrightarrow>
        usedPackages (copyToClipboard Resolved cmd st) = usedPackages (savePackage (Some p) st)
        \<and> localStorage (copyToClipboard Resolved cmd st) = localStorage (savePackage (Some p) st))"
  by (simp add: savePackage_def arr_includes_set Let_def)

theorem savePackage_history_witness:
  "''numpy'' \<in> set (usedPackages example_open)
   \<and> savePackage (Some ''numpy'') example_open = example_open
   \<and> ''scipy'' \<noteq> [] \<and> ''scipy'' \<notin> set (usedPackages example_open)
   \<and> usedPackages (savePackage (Some ''scipy'') example_open) =
        [''scipy'', ''pandas'', ''numpy'', ''requests'', ''pillow'', ''flask'']"
proof -
  have h: "usedPackages example_open = [''pandas'', ''numpy'', ''requests'', ''pillow'', ''flask'']"
    by code_simp
  from h savePackage_history [where p = "''numpy''" and st = example_open]
    savePackage_history [where p = "''scipy''" and st = example_open]
  show ?thesis by simp
qed

text \<open>
  C7. Deleting \<open>p\<close> leaves the history without any occurrence of \<open>p\<close>, the other
  entries in their order; when \<open>p\<close> is not in the history, the history is unchanged.
\<close>

theorem deletePackage_history:
  "usedPackages (deletePackage p st) = removeAll p (usedPackages st)
   \<and> p \<notin> set (usedPackages (deletePackage p st))
   \<and> (p \<notin> set (usedPackages st) \<longrightarrow> usedPackages (deletePackage p st) = usedPackages st)"
proof -
  have "(\<lambda>q. q \<noteq> p) = (\<lambda>q. p \<noteq> q)"
    by auto
  then have "filter (\<lambda>q. q \<noteq> p) (usedPackages st) = removeAll p (usedPackages st)"
    by (simp add: removeAll_filter_not_eq)
  then show ?thesis by (simp add: deletePackage_def)
qed

theorem deletePackage_history_witness:
  "''scipy'' \<notin> set (usedPackages example_open)
   \<and> usedPackages (deletePackage ''scipy'' example_open) = usedPackages example_open
   \<and> usedPackages (deletePackage ''numpy'' example_open) = [''pandas'', ''requests'', ''pillow'', ''flask'']"
proof -
  have h: "usedPackages example_open = [''pandas'', ''numpy'', ''requests'', ''pillow'', ''flask'']"
    by code_simp
  from h deletePackage_history [where p = "''scipy''" and st = example_open]
    deletePackage_history [where p = "''numpy''" and st = example_open]
  show ?thesis by simp
qed

section \<open>Clipboard failure\<close>

text \<open>
  C8. When the clipboard write is rejected, the only effect is a line on the error
  console: the history, the storage, the flag of the success message, the timers and
  the clipboard are what they were.
\<close>

theorem copyToClipboard_rejected:
  "copyToClipboard (Rejected err) cmd st = st\<lparr>console := console st @ [''Failed to copy text: '' @ err]\<rparr>
   \<and> usedPackages (copyToClipboard (Rejected err) cmd st) = usedPackages st
   \<and> localStorage (copyToClipboard (Rejected err) cmd st) = localStorage st
   \<and> showCopyMessage (copyToClipboard (Rejected err) cmd st) = showCopyMessage st
   \<and> timers (copyToClipboard (Rejected err) cmd st) = timers st
   \<and> clipboard (copyToClipboard (Rejected err) cmd st) = clipboard st"
  by simp

theorem copyToClipboard_rejected_witness:
  "usedPackages (copyToClipboard (Rejected ''NotAllowedError'') ''pip install -i u a'' example_open) = defaultPackages
   \<and> \<not> showCopyMessage (copyToClipboard (Rejected ''NotAllowedError'') ''pip install -i u a'' example_open)
   \<and> localStorage (copyToClipboard (Rejected ''NotAllowedError'') ''pip install -i u a'' example_open) ''usedPackages'' = None"
proof -
  have h: "usedPackages example_open = defaultPackages" "\<not> showCopyMessage example_open"
    "localStorage example_open ''usedPackages'' = None"
    by (simp_all add: example_open_def typeText_def handleInput_def initial_def)
  from h copyToClipboard_rejected [where err = "''NotAllowedError''" and cmd = "''pip install -i u a''" and st = example_open]
  show ?thesis by simp
qed

section \<open>Theme\<close>

text \<open>
  C9, as the code has it. Toggling twice restores the boolean. After a toggle the value
  stored under \<open>darkMode\<close> is the string \<open>true\<close> or \<open>false\<close> of the new boolean, so
  after two toggles it is the string of the original boolean. The stored value is
  restored when it was that string before; a key that was unset, or held another text,
  is not restored.
\<close>

theorem toggleTheme_twice:
  "isDarkMode (toggleTheme (toggleTheme st)) = isDarkMode st
   \<and> localStorage (toggleTheme st) ''darkMode'' = Some (string_of_bool (isDarkMode (toggleTheme st)))
   \<and> string_of_bool (isDarkMode (toggleTheme st)) \<in> {''true'', ''false''}
   \<and> localStorage (toggleTheme (toggleTheme st)) ''darkMode'' = Some (string_of_bool (isDarkMode st))
   \<and> (localStorage st ''darkMode'' = Some (string_of_bool (isDarkMode st)) \<longrightarrow>
        localStorage (toggleTheme (toggleTheme st)) = localStorage st)"
  by (auto simp: toggleTheme_def applyTheme_def string_of_bool_def Let_def)

theorem toggleTheme_twice_witness:
  "localStorage (toggleTheme example_fresh) ''darkMode'' = Some ''true''
   \<and> isDarkMode (toggleTheme example_fresh)
   \<and> localStorage (toggleTheme (toggleTheme (toggleTheme example_fresh))) = localStorage (toggleTheme example_fresh)"
proof -
  have h: "isDarkMode (toggleTheme example_fresh)"
    by (simp add: example_fresh_def initial_def toggleTheme_def applyTheme_def Let_def)
  from h toggleTheme_twice [where st = example_fresh] toggleTheme_twice [where st = "toggleTheme example_fresh"]
  show ?thesis by (simp add: string_of_bool_def)
qed

text \<open>
  On a first run the key \<open>darkMode\<close> is unset; after two toggles it holds \<open>false\<close>.
\<close>

theorem toggleTheme_unset_counterexample:
  "localStorage (loadThemePreference example_fresh) ''darkMode'' = None
   \<and> localStorage (toggleTheme (toggleTheme (loadThemePreference example_fresh))) ''darkMode'' = Some ''false''"
  by (simp add: example_fresh_def initial_def loadThemePreference_def toggleTheme_def applyTheme_def
      string_of_bool_def Let_def)

end
